theory Spec2Isabelle
  imports Complex_Main
begin

section \<open>Data model of HandRaiseDetection.js\<close>

text \<open>
  The source is one React component, \<^verbatim>\<open>MotorWeaknessAssessment\<close>. Its decision logic is
  the closure \<^verbatim>\<open>detect\<close> (run every 100 ms by \<^verbatim>\<open>setInterval\<close>), the one-shot
  \<^verbatim>\<open>setTimeout\<close> callbacks that \<^verbatim>\<open>detect\<close> arms, the one-second session timer with its
  completion effect, and the two button handlers \<^verbatim>\<open>startChallenge\<close> and
  \<^verbatim>\<open>resetChallenge\<close>. Canvas drawing is left out, except where a property read in the
  drawing code can raise.

  JavaScript numbers are modelled as reals for coordinates and scores and as integers
  for the two counters; \<^verbatim>\<open>null\<close> is \<open>None\<close>.
\<close>

record keypoint =
  kx :: real
  ky :: real
  score :: real

record hand_prediction =
  keypoints :: "keypoint list"
  handedness :: string

record pose_prediction =
  pose_keypoints :: "keypoint list"

text \<open>
  What one tick works on: the results of the two estimators and \<open>computedLineY\<close>, the value
  of \<^verbatim>\<open>shoulderLineY\<close> that line 118 computes as \<^verbatim>\<open>videoHeight * detectionLineY\<close>.
  That product is one of doubles (\<^verbatim>\<open>detectionLineY\<close> is the double nearest to 0.7), so
  it is taken as it comes out rather than recomputed over the reals: it is 336 for a
  video 480 pixels high, and \<open>504 - 1 / 2 ^ 44\<close> for one 720 pixels high.
\<close>

record frame =
  computedLineY :: real
  posePredictions :: "pose_prediction list"
  handPredictions :: "hand_prediction list"

datatype side = Left | Right

record hand_state =
  detected :: bool
  correctAngle :: bool
  shoulderTouching :: bool

record hand_states =
  left :: hand_state
  right :: hand_state

text \<open>
  The component state (the \<^verbatim>\<open>useState\<close> cells), together with three things the
  JavaScript runtime holds: the due times of the armed \<^verbatim>\<open>setTimeout\<close> callbacks, the
  wall clock in milliseconds, and the number of calls made to the host's
  \<^verbatim>\<open>onComplete\<close>.
\<close>

record state =
  holdCountdown :: "int option"
  isComplete :: bool
  isLoading :: bool
  handStates :: hand_states
  showStartModal :: bool
  timeLeft :: int
  challengeStarted :: bool
  showCompletionModal :: bool
  currentSide :: side
  pendingTimeouts :: "nat list"
  clock :: nat
  onCompleteCalls :: nat

datatype error = TypeError

definition holdDuration :: int where
  "holdDuration = 10"

definition angleTolerance :: real where
  "angleTolerance = 15"

definition freshHandState :: hand_state where
  "freshHandState = \<lparr>detected = False, correctAngle = False, shoulderTouching = False\<rparr>"

definition freshHandStates :: hand_states where
  "freshHandStates = \<lparr>left = freshHandState, right = freshHandState\<rparr>"

definition initialState :: state where
  "initialState =
     \<lparr>holdCountdown = None, isComplete = False, isLoading = True,
      handStates = freshHandStates, showStartModal = True, timeLeft = 60,
      challengeStarted = False, showCompletionModal = False, currentSide = Right,
      pendingTimeouts = [], clock = 0, onCompleteCalls = 0\<rparr>"

section \<open>Library functions of the host language\<close>

text \<open>
  \<^verbatim>\<open>Math.atan2(y, x)\<close> on reals: the angle of the point \<open>(x, y)\<close> in \<open>(-\<pi>, \<pi>]\<close>, and
  \<open>0\<close> at the origin.
\<close>

definition atan2 :: "real \<Rightarrow> real \<Rightarrow> real" where
  "atan2 y x =
     (if 0 < x then arctan (y / x)
      else if x < 0 then (if 0 \<le> y then arctan (y / x) + pi else arctan (y / x) - pi)
      else if 0 < y then pi / 2
      else if y < 0 then - (pi / 2)
      else 0)"

text \<open>\<^verbatim>\<open>String.prototype.toLowerCase\<close> on ASCII text.\<close>

definition toLowerChar :: "char \<Rightarrow> char" where
  "toLowerChar c =
     (let n = (of_char c :: nat) in if 65 \<le> n \<and> n \<le> 90 then char_of (n + 32) else c)"

definition toLowerCase :: "string \<Rightarrow> string" where
  "toLowerCase s = map toLowerChar s"

section \<open>Per-frame classification (the body of \<^verbatim>\<open>detect\<close> up to \<^verbatim>\<open>setHandStates\<close>)\<close>

text \<open>\<^verbatim>\<open>newHandStates[side]\<close>, read and written.\<close>

fun getSide :: "hand_states \<Rightarrow> side \<Rightarrow> hand_state" where
  "getSide hs Left = left hs"
| "getSide hs Right = right hs"

fun setSide :: "side \<Rightarrow> (hand_state \<Rightarrow> hand_state) \<Rightarrow> hand_states \<Rightarrow> hand_states" where
  "setSide Left f hs = hs\<lparr>left := f (left hs)\<rparr>"
| "setSide Right f hs = hs\<lparr>right := f (right hs)\<rparr>"

text \<open>
  Lines 130 to 168. \<^verbatim>\<open>shoulders\<close> starts as \<^verbatim>\<open>{left: null, right: null}\<close>; with a pose
  it takes \<^verbatim>\<open>keypoints[5]\<close> and \<^verbatim>\<open>keypoints[6]\<close>. The drawing loop then reads
  \<^verbatim>\<open>shoulder.score\<close> of both without a guard, which raises a TypeError when either index
  is beyond the array. The result is the pair (left shoulder, right shoulder).
\<close>

definition getShoulders ::
  "pose_prediction list \<Rightarrow> error + (keypoint option \<times> keypoint option)" where
  "getShoulders poses =
     (case poses of
        [] \<Rightarrow> Inr (None, None)
      | p # _ \<Rightarrow>
          (let kps = pose_keypoints p
           in if length kps \<le> 6 then Inl TypeError
              else Inr (Some (kps ! 5), Some (kps ! 6))))"

text \<open>
  Lines 181 to 228: the callback of \<^verbatim>\<open>handPredictions.forEach\<close>. \<^verbatim>\<open>wrist\<close> is
  \<^verbatim>\<open>landmarks[0]\<close>; it is read only under the shoulder guard, where an empty landmark
  array raises a TypeError.
\<close>

definition processHand ::
  "keypoint option \<times> keypoint option \<Rightarrow> real \<Rightarrow> hand_states \<Rightarrow> hand_prediction
     \<Rightarrow> error + hand_states" where
  "processHand shoulders shoulderLineY newHandStates prediction =
     (let landmarks = keypoints prediction;
          isLeft = (toLowerCase (handedness prediction) = ''left'');
          side = (if isLeft then Left else Right);
          shoulder = (if isLeft then fst shoulders else snd shoulders);
          hs1 = setSide side (\<lambda>s. s\<lparr>detected := True\<rparr>) newHandStates
      in case shoulder of
           None \<Rightarrow> Inr hs1
         | Some sh \<Rightarrow>
             if 3 / 10 < score sh then
               (let shoulderOnLine = (\<bar>ky sh - shoulderLineY\<bar> < 20);
                    hs2 = setSide side (\<lambda>s. s\<lparr>shoulderTouching := shoulderOnLine\<rparr>) hs1
                in case landmarks of
                     [] \<Rightarrow> Inl TypeError
                   | wrist # _ \<Rightarrow>
                       (let dx = kx wrist - kx sh;
                            dy = ky sh - ky wrist;
                            angle = atan2 dy dx * (180 / pi);
                            normalizedAngle = (if angle < 0 then angle + 360 else angle);
                            targetAngleForSide = (if isLeft then 135 else 45);
                            angleDiff = \<bar>normalizedAngle - targetAngleForSide\<bar>
                        in Inr (setSide side
                                  (\<lambda>s. s\<lparr>correctAngle := (angleDiff \<le> angleTolerance)\<rparr>) hs2)))
             else Inr hs1)"

text \<open>The \<^verbatim>\<open>forEach\<close> itself: left to right, stopping at the first exception.\<close>

fun processHands ::
  "keypoint option \<times> keypoint option \<Rightarrow> real \<Rightarrow> hand_states \<Rightarrow> hand_prediction list
     \<Rightarrow> error + hand_states" where
  "processHands shoulders shoulderLineY newHandStates [] = Inr newHandStates"
| "processHands shoulders shoulderLineY newHandStates (prediction # rest) =
     (case processHand shoulders shoulderLineY newHandStates prediction of
        Inl e \<Rightarrow> Inl e
      | Inr hs \<Rightarrow> processHands shoulders shoulderLineY hs rest)"

definition classifyFrame :: "frame \<Rightarrow> error + hand_states" where
  "classifyFrame f =
     (let shoulderLineY = computedLineY f
      in case getShoulders (posePredictions f) of
           Inl e \<Rightarrow> Inl e
         | Inr shoulders \<Rightarrow>
             processHands shoulders shoulderLineY freshHandStates (handPredictions f))"

section \<open>The hold and side state machine (lines 231 to 255)\<close>

text \<open>
  One run of \<^verbatim>\<open>detect\<close>. The frame is \<open>None\<close> when the video element is not ready
  (\<^verbatim>\<open>readyState !== 4\<close>): nothing happens. An exception leaves the component state as
  it was, since every \<^verbatim>\<open>setState\<close> call comes after the classification. The closure's
  \<^verbatim>\<open>holdCountdown\<close> and \<^verbatim>\<open>currentSide\<close> are the values of the state the tick starts
  from (the effect is re-created whenever either changes). The branch
  \<^verbatim>\<open>holdCountdown > 0\<close> arms a one-shot timer due 1000 ms later and keeps no handle to it.
\<close>

definition detect :: "state \<Rightarrow> frame option \<Rightarrow> error + state" where
  "detect st fr =
     (case fr of
        None \<Rightarrow> Inr st
      | Some f \<Rightarrow>
          (case classifyFrame f of
             Inl e \<Rightarrow> Inl e
           | Inr newHandStates \<Rightarrow>
               (let st1 = st\<lparr>handStates := newHandStates\<rparr>;
                    currentSideState = getSide newHandStates (currentSide st)
                in if detected currentSideState \<and> correctAngle currentSideState
                        \<and> shoulderTouching currentSideState
                   then (case holdCountdown st of
                           None \<Rightarrow> Inr (st1\<lparr>holdCountdown := Some holdDuration\<rparr>)
                         | Some n \<Rightarrow>
                             if 0 < n
                             then Inr (st1\<lparr>pendingTimeouts :=
                                             pendingTimeouts st @ [clock st + 1000]\<rparr>)
                             else if currentSide st = Right
                             then Inr (st1\<lparr>currentSide := Left, holdCountdown := None\<rparr>)
                             else Inr (st1\<lparr>isComplete := True\<rparr>))
                   else Inr (st1\<lparr>holdCountdown := None\<rparr>))))"

text \<open>
  The timer callback \<^verbatim>\<open>prev => prev - 1\<close>. JavaScript converts \<^verbatim>\<open>null\<close> to \<open>0\<close> in
  arithmetic, so \<^verbatim>\<open>null - 1\<close> is \<open>-1\<close>.
\<close>

definition decrementHold :: "int option \<Rightarrow> int option" where
  "decrementHold prev = Some ((case prev of None \<Rightarrow> 0 | Some n \<Rightarrow> n) - 1)"

text \<open>Runs the callback of every armed timer that is due at time \<open>now\<close>.\<close>

fun fireDue :: "nat \<Rightarrow> nat list \<Rightarrow> int option \<Rightarrow> int option" where
  "fireDue now [] h = h"
| "fireDue now (d # ds) h = fireDue now ds (if d \<le> now then decrementHold h else h)"

definition fireTimeouts :: "state \<Rightarrow> state" where
  "fireTimeouts st =
     st\<lparr>holdCountdown := fireDue (clock st) (pendingTimeouts st) (holdCountdown st),
        pendingTimeouts := filter (\<lambda>d. \<not> d \<le> clock st) (pendingTimeouts st)\<rparr>"

section \<open>Session controller\<close>

definition startChallenge :: "state \<Rightarrow> state" where
  "startChallenge st =
     st\<lparr>showStartModal := False, challengeStarted := True, timeLeft := 60,
        holdCountdown := None, isComplete := False, currentSide := Right\<rparr>"

definition resetChallenge :: "state \<Rightarrow> state" where
  "resetChallenge st =
     st\<lparr>isComplete := False, holdCountdown := None, challengeStarted := False,
        showStartModal := True, timeLeft := 60, showCompletionModal := False,
        currentSide := Right\<rparr>"

text \<open>The effect on lines 88 to 95, run after every state change.\<close>

definition timerCompletion :: "state \<Rightarrow> state" where
  "timerCompletion st =
     (if timeLeft st \<le> 0 \<and> challengeStarted st
      then (let st1 = st\<lparr>challengeStarted := False\<rparr>
            in if isComplete st then st1\<lparr>showCompletionModal := True\<rparr> else st1)
      else st)"

text \<open>
  What can happen to the component. A detection tick runs only while the interval of
  lines 98 to 261 exists; the session tick only while the interval of lines 77 to 85
  exists; a click only while its button is rendered: the start button inside the start
  modal, \<^verbatim>\<open>Retake Assessment\<close> and \<^verbatim>\<open>Continue\<close> (wired to \<^verbatim>\<open>onComplete\<close>) inside the
  completion modal. \<open>Elapse\<close> is time passing with nothing but the armed timers to run.
\<close>

datatype event =
    ModelsLoaded
  | DetectTick "frame option"
  | SessionTick
  | ClickStart
  | ClickRetake
  | ClickContinue
  | Elapse

fun applyEvent :: "state \<Rightarrow> event \<Rightarrow> state" where
  "applyEvent st ModelsLoaded = st\<lparr>isLoading := False\<rparr>"
| "applyEvent st (DetectTick fr) =
     (if isLoading st \<or> \<not> challengeStarted st then st
      else (case detect st fr of Inl e \<Rightarrow> st | Inr st' \<Rightarrow> st'))"
| "applyEvent st SessionTick =
     (if challengeStarted st \<and> 0 < timeLeft st then st\<lparr>timeLeft := timeLeft st - 1\<rparr> else st)"
| "applyEvent st ClickStart =
     (if showStartModal st \<and> \<not> isLoading st then startChallenge st else st)"
| "applyEvent st ClickRetake =
     (if showCompletionModal st then resetChallenge st else st)"
| "applyEvent st ClickContinue =
     (if showCompletionModal st then st\<lparr>onCompleteCalls := Suc (onCompleteCalls st)\<rparr> else st)"
| "applyEvent st Elapse = st"

text \<open>
  An event that happens \<open>dt\<close> milliseconds after the previous one: the clock advances,
  the timers that have come due fire, the event is handled and the completion effect
  runs.
\<close>

definition step :: "state \<Rightarrow> nat \<times> event \<Rightarrow> state" where
  "step st de =
     timerCompletion (applyEvent (fireTimeouts (st\<lparr>clock := clock st + fst de\<rparr>)) (snd de))"

definition run :: "state \<Rightarrow> (nat \<times> event) list \<Rightarrow> state" where
  "run st evs = foldl step st evs"

section \<open>Vocabulary of the specification\<close>

text \<open>
  The geometry evaluator as the specification words it (its section 4.1), to be compared
  with what \<open>processHand\<close> computes inline.
\<close>

definition spec_shoulderOnLine :: "keypoint \<Rightarrow> real \<Rightarrow> real \<Rightarrow> bool" where
  "spec_shoulderOnLine shoulder lineY tau =
     (3 / 10 < score shoulder \<and> \<bar>ky shoulder - lineY\<bar> < tau)"

definition spec_computeAngle :: "keypoint \<Rightarrow> keypoint \<Rightarrow> real" where
  "spec_computeAngle shoulder wrist =
     (let a = atan2 (ky shoulder - ky wrist) (kx wrist - kx shoulder) * (180 / pi)
      in if a < 0 then a + 360 else a)"

fun spec_target :: "side \<Rightarrow> real" where
  "spec_target Right = 45"
| "spec_target Left = 135"

definition spec_angleMatches :: "real \<Rightarrow> side \<Rightarrow> bool" where
  "spec_angleMatches angle s = (\<bar>angle - spec_target s\<bar> \<le> 15)"

text \<open>The side a hand detection is filed under, and the shoulder looked up for a side.\<close>

definition sideOf :: "hand_prediction \<Rightarrow> side" where
  "sideOf p = (if toLowerCase (handedness p) = ''left'' then Left else Right)"

fun shoulderFor :: "keypoint option \<times> keypoint option \<Rightarrow> side \<Rightarrow> keypoint option" where
  "shoulderFor shoulders Left = fst shoulders"
| "shoulderFor shoulders Right = snd shoulders"

definition validShoulder :: "keypoint option \<Rightarrow> bool" where
  "validShoulder shoulder = (case shoulder of None \<Rightarrow> False | Some sh \<Rightarrow> 3 / 10 < score sh)"

text \<open>The status record that one hand detection alone gives its side.\<close>

definition handStatus ::
  "keypoint option \<Rightarrow> real \<Rightarrow> side \<Rightarrow> hand_prediction \<Rightarrow> hand_state" where
  "handStatus shoulder lineY s p =
     (case shoulder of
        None \<Rightarrow> \<lparr>detected = True, correctAngle = False, shoulderTouching = False\<rparr>
      | Some sh \<Rightarrow>
          if 3 / 10 < score sh
          then \<lparr>detected = True,
                correctAngle =
                  (case keypoints p of
                     [] \<Rightarrow> False
                   | w # _ \<Rightarrow> spec_angleMatches (spec_computeAngle sh w) s),
                shoulderTouching = spec_shoulderOnLine sh lineY 20\<rparr>
          else \<lparr>detected = True, correctAngle = False, shoulderTouching = False\<rparr>)"

text \<open>
  The status of a side in a frame: all false without a hand of that side, and otherwise
  what the last hand of that side in the list gives.
\<close>

definition sideStatus ::
  "keypoint option \<times> keypoint option \<Rightarrow> real \<Rightarrow> hand_prediction list \<Rightarrow> side
     \<Rightarrow> hand_state" where
  "sideStatus shoulders lineY hands s =
     (case filter (\<lambda>p. sideOf p = s) hands of
        [] \<Rightarrow> freshHandState
      | q # qs \<Rightarrow> handStatus (shoulderFor shoulders s) lineY s (last (q # qs)))"

text \<open>
  A frame as the estimators deliver it: the first pose, when there is one, has the
  shoulder entries 5 and 6, and every hand has its wrist landmark.
\<close>

definition wellFormedFrame :: "frame \<Rightarrow> bool" where
  "wellFormedFrame f =
     ((case posePredictions f of [] \<Rightarrow> True | p # _ \<Rightarrow> 7 \<le> length (pose_keypoints p))
      \<and> (\<forall>h \<in> set (handPredictions f). keypoints h \<noteq> []))"

text \<open>The conjunction the state machine tests on the current side.\<close>

definition sideOk :: "hand_states \<Rightarrow> side \<Rightarrow> bool" where
  "sideOk hs s =
     (detected (getSide hs s) \<and> correctAngle (getSide hs s) \<and> shoulderTouching (getSide hs s))"

section \<open>Concrete frames, states and schedules\<close>

text \<open>
  A video 480 pixels high: the shoulder line is at \<open>y = 336\<close>. The pose has the 17 MoveNet
  joints, both shoulders on the line; each hand has 21 landmarks, the wrist first. The
  right wrist is up and outwards at 45 degrees from the right shoulder, the left wrist
  at 135 degrees from the left shoulder.
\<close>

definition kp :: "real \<Rightarrow> real \<Rightarrow> real \<Rightarrow> keypoint" where
  "kp a b c = \<lparr>kx = a, ky = b, score = c\<rparr>"

definition examplePose :: pose_prediction where
  "examplePose =
     \<lparr>pose_keypoints =
        [kp 0 0 0, kp 0 0 0, kp 0 0 0, kp 0 0 0, kp 0 0 0,
         kp 340 336 (9 / 10), kp 300 336 (9 / 10)] @ replicate 10 (kp 0 0 0)\<rparr>"

definition rightHand :: hand_prediction where
  "rightHand = \<lparr>keypoints = kp 400 236 1 # replicate 20 (kp 0 0 1), handedness = ''Right''\<rparr>"

definition leftHand :: hand_prediction where
  "leftHand = \<lparr>keypoints = kp 240 236 1 # replicate 20 (kp 0 0 1), handedness = ''Left''\<rparr>"

text \<open>A right hand held level with the shoulder: the arm angle is 0 degrees.\<close>

definition levelRightHand :: hand_prediction where
  "levelRightHand =
     \<lparr>keypoints = kp 400 336 1 # replicate 20 (kp 0 0 1), handedness = ''Right''\<rparr>"

definition okRightFrame :: frame where
  "okRightFrame =
     \<lparr>computedLineY = 336, posePredictions = [examplePose], handPredictions = [rightHand]\<rparr>"

definition okLeftFrame :: frame where
  "okLeftFrame =
     \<lparr>computedLineY = 336, posePredictions = [examplePose], handPredictions = [leftHand]\<rparr>"

definition noHandsFrame :: frame where
  "noHandsFrame = \<lparr>computedLineY = 336, posePredictions = [examplePose], handPredictions = []\<rparr>"

definition noPoseFrame :: frame where
  "noPoseFrame = \<lparr>computedLineY = 336, posePredictions = [], handPredictions = [rightHand]\<rparr>"

definition twoRightHandsFrame :: frame where
  "twoRightHandsFrame =
     \<lparr>computedLineY = 336, posePredictions = [examplePose],
      handPredictions = [rightHand, levelRightHand]\<rparr>"

text \<open>
  A video 720 pixels high: \<^verbatim>\<open>720 * 0.7\<close> is the double \<open>504 - 1 / 2 ^ 44\<close>, and both
  shoulders are at \<open>y = 484\<close>. \<open>boundaryFrame\<close>: the line at 336 and both shoulders at
  \<open>y = 356\<close>, exactly 20 pixels away. \<open>shortPoseFrame\<close>: a pose of five joints, which
  no estimator of the source delivers.
\<close>

definition frame720 :: frame where
  "frame720 =
     \<lparr>computedLineY = 504 - 1 / 2 ^ 44,
      posePredictions =
        [\<lparr>pose_keypoints =
            [kp 0 0 0, kp 0 0 0, kp 0 0 0, kp 0 0 0, kp 0 0 0,
             kp 340 484 (9 / 10), kp 300 484 (9 / 10)] @ replicate 10 (kp 0 0 0)\<rparr>],
      handPredictions = [rightHand]\<rparr>"

definition boundaryFrame :: frame where
  "boundaryFrame =
     \<lparr>computedLineY = 336,
      posePredictions =
        [\<lparr>pose_keypoints =
            [kp 0 0 0, kp 0 0 0, kp 0 0 0, kp 0 0 0, kp 0 0 0,
             kp 340 356 (9 / 10), kp 300 356 (9 / 10)] @ replicate 10 (kp 0 0 0)\<rparr>],
      handPredictions = [rightHand]\<rparr>"

definition shortPoseFrame :: frame where
  "shortPoseFrame =
     \<lparr>computedLineY = 336,
      posePredictions =
        [\<lparr>pose_keypoints = [kp 0 0 0, kp 0 0 0, kp 0 0 0, kp 0 0 0, kp 0 0 0]\<rparr>],
      handPredictions = [rightHand]\<rparr>"

definition levelThenRaisedFrame :: frame where
  "levelThenRaisedFrame =
     \<lparr>computedLineY = 336, posePredictions = [examplePose],
      handPredictions = [levelRightHand, rightHand]\<rparr>"

definition okState :: hand_state where
  "okState = \<lparr>detected = True, correctAngle = True, shoulderTouching = True\<rparr>"

text \<open>A running session in the middle of a hold, and one whose countdown has reached 0.\<close>

definition midHoldState :: state where
  "midHoldState =
     initialState\<lparr>isLoading := False, showStartModal := False, challengeStarted := True,
       holdCountdown := Some 7\<rparr>"

definition holdDoneState :: state where
  "holdDoneState =
     initialState\<lparr>isLoading := False, showStartModal := False, challengeStarted := True,
       holdCountdown := Some 0\<rparr>"

text \<open>
  Schedules. \<open>fastRight n\<close>: the models load, the user starts, and the right arm
  qualifies on \<open>n\<close> detection ticks 100 ms apart. \<open>oneSecond fr\<close>: one second of
  ticks that all see the frame \<open>fr\<close>, with the session timer's tick at the full second.
  \<open>bothHolds\<close>: ten seconds of the right arm qualifying, then ten seconds of the left.
  \<open>retakeMidHold\<close>: after that the user lowers both arms, raises the left arm again in
  the last second of the session, and clicks \<^verbatim>\<open>Retake Assessment\<close> 150 ms after the
  completion modal has come up.
\<close>

definition fastRight :: "nat \<Rightarrow> (nat \<times> event) list" where
  "fastRight n =
     [(0, ModelsLoaded), (0, ClickStart)] @ replicate n (100, DetectTick (Some okRightFrame))"

definition oneSecond :: "frame \<Rightarrow> (nat \<times> event) list" where
  "oneSecond fr =
     replicate 9 (100, DetectTick (Some fr)) @ [(100, SessionTick), (0, DetectTick (Some fr))]"

definition bothHolds :: "(nat \<times> event) list" where
  "bothHolds =
     [(0, ModelsLoaded), (0, ClickStart)]
     @ concat (replicate 10 (oneSecond okRightFrame))
     @ concat (replicate 10 (oneSecond okLeftFrame))"

definition retakeMidHold :: "(nat \<times> event) list" where
  "retakeMidHold =
     bothHolds @ concat (replicate 39 (oneSecond noHandsFrame)) @ oneSecond okLeftFrame
     @ [(150, ClickRetake)]"

text \<open>
  \<open>leftHoldStarted\<close>: eleven seconds into a session, the right side done and the left
  hold just begun. \<open>completedSession\<close>: both holds, then arms down until the session
  timer runs out.
\<close>

text \<open>
  \<open>dropAfterOneSecond\<close>: the right arm qualifies on the ticks from 100 to 1000 ms and
  the tick at 1100 ms sees no hand.
\<close>

definition dropAfterOneSecond :: "(nat \<times> event) list" where
  "dropAfterOneSecond = fastRight 10 @ [(100, DetectTick (Some noHandsFrame))]"

definition leftHoldStarted :: "(nat \<times> event) list" where
  "leftHoldStarted =
     [(0, ModelsLoaded), (0, ClickStart)]
     @ concat (replicate 10 (oneSecond okRightFrame)) @ oneSecond okLeftFrame"


definition completedSession :: "(nat \<times> event) list" where
  "completedSession = bothHolds @ concat (replicate 40 (oneSecond noHandsFrame))"

section \<open>Range of the angle\<close>



section \<open>What the frame classifier computes\<close>

lemma getSide_setSide:
  "getSide (setSide s f hs) s' = (if s' = s then f (getSide hs s) else getSide hs s')"
  by (cases s; cases s') simp_all

lemma processHand_no_shoulder:
  assumes "\<not> validShoulder (shoulderFor shoulders (sideOf p))"
  shows "processHand shoulders l hs p = Inr (setSide (sideOf p) (\<lambda>s. s\<lparr>detected := True\<rparr>) hs)"
  using assms
  by (auto simp: processHand_def sideOf_def validShoulder_def Let_def split: option.splits)

lemma processHand_shoulder:
  assumes "shoulderFor shoulders (sideOf p) = Some sh" "3 / 10 < score sh"
    and "keypoints p = w # ws"
  shows "processHand shoulders l hs p =
           Inr (setSide (sideOf p)
                  (\<lambda>s. s\<lparr>detected := True, shoulderTouching := spec_shoulderOnLine sh l 20,
                          correctAngle := spec_angleMatches (spec_computeAngle sh w) (sideOf p)\<rparr>)
                  hs)"
  using assms
  by (cases "sideOf p")
     (auto simp: processHand_def sideOf_def Let_def spec_shoulderOnLine_def
        spec_angleMatches_def spec_computeAngle_def angleTolerance_def split: if_splits)

lemma processHand_no_wrist:
  assumes "shoulderFor shoulders (sideOf p) = Some sh" "3 / 10 < score sh"
    and "keypoints p = []"
  shows "processHand shoulders l hs p = Inl TypeError"
  using assms by (auto simp: processHand_def sideOf_def Let_def split: if_splits)

lemma processHand_step:
  assumes "keypoints p \<noteq> []"
  shows "\<exists>hs'. processHand shoulders l hs p = Inr hs' \<and>
           (\<forall>s. getSide hs' s =
              (if s = sideOf p
               then (if validShoulder (shoulderFor shoulders s)
                     then handStatus (shoulderFor shoulders s) l s p
                     else (getSide hs s)\<lparr>detected := True\<rparr>)
               else getSide hs s))"
proof (cases "validShoulder (shoulderFor shoulders (sideOf p))")
  case True
  then obtain sh where sh: "shoulderFor shoulders (sideOf p) = Some sh" "3 / 10 < score sh"
    by (auto simp: validShoulder_def split: option.splits)
  from assms obtain w ws where w: "keypoints p = w # ws" by (cases "keypoints p") auto
  show ?thesis
    using True sh w processHand_shoulder [OF sh w, of l hs]
    by (auto simp: getSide_setSide handStatus_def)
next
  case False
  from processHand_no_shoulder [OF this, of l hs] False show ?thesis
    by (auto simp: getSide_setSide)
qed

lemma processHands_char:
  assumes "\<forall>p \<in> set hands. keypoints p \<noteq> []"
  shows "\<exists>hs'. processHands shoulders l hs hands = Inr hs' \<and>
           (\<forall>s. getSide hs' s =
              (case filter (\<lambda>p. sideOf p = s) hands of
                 [] \<Rightarrow> getSide hs s
               | q # qs \<Rightarrow>
                   if validShoulder (shoulderFor shoulders s)
                   then handStatus (shoulderFor shoulders s) l s (last (q # qs))
                   else (getSide hs s)\<lparr>detected := True\<rparr>))"
  using assms
proof (induction hands arbitrary: hs)
  case Nil
  then show ?case by simp
next
  case (Cons p hands)
  from Cons.prems have wp: "keypoints p \<noteq> []" and wr: "\<forall>p \<in> set hands. keypoints p \<noteq> []"
    by simp_all
  from processHand_step [OF wp, of shoulders l hs]
  obtain hs1 where h1: "processHand shoulders l hs p = Inr hs1"
    and g1: "\<And>s. getSide hs1 s =
              (if s = sideOf p
               then (if validShoulder (shoulderFor shoulders s)
                     then handStatus (shoulderFor shoulders s) l s p
                     else (getSide hs s)\<lparr>detected := True\<rparr>)
               else getSide hs s)"
    by blast
  from Cons.IH [OF wr, of hs1]
  obtain hs2 where h2: "processHands shoulders l hs1 hands = Inr hs2"
    and g2: "\<And>s. getSide hs2 s =
              (case filter (\<lambda>p. sideOf p = s) hands of
                 [] \<Rightarrow> getSide hs1 s
               | q # qs \<Rightarrow>
                   if validShoulder (shoulderFor shoulders s)
                   then handStatus (shoulderFor shoulders s) l s (last (q # qs))
                   else (getSide hs1 s)\<lparr>detected := True\<rparr>)"
    by blast
  have "processHands shoulders l hs (p # hands) = Inr hs2"
    using h1 h2 by simp
  moreover have "getSide hs2 s =
              (case filter (\<lambda>p. sideOf p = s) (p # hands) of
                 [] \<Rightarrow> getSide hs s
               | q # qs \<Rightarrow>
                   if validShoulder (shoulderFor shoulders s)
                   then handStatus (shoulderFor shoulders s) l s (last (q # qs))
                   else (getSide hs s)\<lparr>detected := True\<rparr>)" for s
    by (simp add: g2 g1 split: list.splits)
  ultimately show ?case by blast
qed

lemma handStatus_invalid:
  "\<not> validShoulder shoulder \<Longrightarrow> handStatus shoulder l s p = freshHandState\<lparr>detected := True\<rparr>"
  by (auto simp: handStatus_def validShoulder_def freshHandState_def split: option.splits)

lemma getSide_fresh: "getSide freshHandStates s = freshHandState"
  by (cases s) (simp_all add: freshHandStates_def)

lemma processHands_fresh:
  assumes "\<forall>p \<in> set hands. keypoints p \<noteq> []"
  shows "\<exists>hs'. processHands shoulders l freshHandStates hands = Inr hs' \<and>
           (\<forall>s. getSide hs' s = sideStatus shoulders l hands s)"
  using processHands_char [OF assms, of shoulders l freshHandStates]
  by (auto simp: getSide_fresh sideStatus_def handStatus_invalid split: list.splits)

lemma getShoulders_wellFormed:
  assumes "wellFormedFrame f"
  shows "\<exists>shoulders. getShoulders (posePredictions f) = Inr shoulders"
  using assms by (auto simp: wellFormedFrame_def getShoulders_def Let_def split: list.splits)

lemma classifyFrame_wellFormed:
  assumes "wellFormedFrame f"
  shows "\<exists>shoulders hs. getShoulders (posePredictions f) = Inr shoulders \<and>
           classifyFrame f = Inr hs \<and>
           (\<forall>s. getSide hs s =
              sideStatus shoulders (computedLineY f) (handPredictions f) s)"
proof -
  from getShoulders_wellFormed [OF assms]
  obtain shoulders where sh: "getShoulders (posePredictions f) = Inr shoulders" by blast
  from assms have "\<forall>p \<in> set (handPredictions f). keypoints p \<noteq> []"
    by (simp add: wellFormedFrame_def)
  from processHands_fresh [OF this, of shoulders "computedLineY f"] sh
  show ?thesis by (auto simp: classifyFrame_def)
qed

section \<open>Evaluating the concrete frames and schedules\<close>

lemma toLowerCase_Right: "toLowerCase ''Right'' = ''right''"
  by code_simp

lemma toLowerCase_Left: "toLowerCase ''Left'' = ''left''"
  by code_simp

lemma sideOf_examples:
  "sideOf rightHand = Right" "sideOf leftHand = Left" "sideOf levelRightHand = Right"
  by (simp_all add: sideOf_def rightHand_def leftHand_def levelRightHand_def
      toLowerCase_Right toLowerCase_Left)

lemma getShoulders_examplePose:
  "getShoulders [examplePose] = Inr (Some (kp 340 336 (9 / 10)), Some (kp 300 336 (9 / 10)))"
  by (simp add: getShoulders_def examplePose_def Let_def)

lemma classify_okRight:
  "classifyFrame okRightFrame = Inr \<lparr>left = freshHandState, right = okState\<rparr>"
  by (simp add: classifyFrame_def okRightFrame_def getShoulders_examplePose rightHand_def
      processHand_def toLowerCase_Right kp_def atan2_def arctan_one
      angleTolerance_def freshHandStates_def freshHandState_def okState_def Let_def)

lemma classify_okLeft:
  "classifyFrame okLeftFrame = Inr \<lparr>left = okState, right = freshHandState\<rparr>"
  by (simp add: classifyFrame_def okLeftFrame_def getShoulders_examplePose leftHand_def
      processHand_def toLowerCase_Left kp_def atan2_def arctan_minus
      arctan_one angleTolerance_def freshHandStates_def freshHandState_def okState_def Let_def)

lemma classify_noHands: "classifyFrame noHandsFrame = Inr freshHandStates"
  by (simp add: classifyFrame_def noHandsFrame_def getShoulders_examplePose)

lemma wellFormed_examples:
  "wellFormedFrame okRightFrame" "wellFormedFrame okLeftFrame" "wellFormedFrame noHandsFrame"
  "wellFormedFrame noPoseFrame" "wellFormedFrame twoRightHandsFrame"
  by (simp_all add: wellFormedFrame_def okRightFrame_def okLeftFrame_def noHandsFrame_def
      noPoseFrame_def twoRightHandsFrame_def examplePose_def rightHand_def leftHand_def
      levelRightHand_def)

lemma replicate_numeral_Bit0:
  "replicate (numeral (Num.Bit0 n)) x = replicate (numeral n) x @ replicate (numeral n) x"
proof -
  have "numeral (Num.Bit0 n) = (numeral n + numeral n :: nat)" by (rule numeral_Bit0)
  then show ?thesis by (simp only: replicate_add)
qed

lemma replicate_numeral_Bit1:
  "replicate (numeral (Num.Bit1 n)) x = x # replicate (numeral n) x @ replicate (numeral n) x"
proof -
  have "numeral (Num.Bit1 n) = Suc (numeral n + numeral n)"
    by (simp only: numeral_Bit1 Suc_eq_plus1)
  then show ?thesis by (simp only: replicate_Suc replicate_add)
qed

lemma replicate_numeral_One: "replicate (numeral Num.One) x = [x]"
  by simp

lemmas schedule_eval =
  run_def step_def detect_def fireTimeouts_def timerCompletion_def startChallenge_def
  resetChallenge_def decrementHold_def holdDuration_def initialState_def
  classify_okRight classify_okLeft classify_noHands okState_def freshHandState_def
  freshHandStates_def Let_def replicate_numeral_Bit0 replicate_numeral_Bit1
  replicate_numeral_One fastRight_def oneSecond_def bothHolds_def retakeMidHold_def
  leftHoldStarted_def completedSession_def dropAfterOneSecond_def

lemma spec_computeAngle_example: "spec_computeAngle (kp 300 336 (9 / 10)) (kp 400 236 1) = 45"
  by (simp add: spec_computeAngle_def kp_def atan2_def arctan_one Let_def)

lemma classify_noPose:
  "classifyFrame noPoseFrame
     = Inr \<lparr>left = freshHandState,
            right = \<lparr>detected = True, correctAngle = False, shoulderTouching = False\<rparr>\<rparr>"
  by (simp add: classifyFrame_def noPoseFrame_def getShoulders_def rightHand_def
      processHand_def toLowerCase_Right freshHandStates_def freshHandState_def Let_def)

lemma classify_twoRightHands:
  "classifyFrame twoRightHandsFrame
     = Inr \<lparr>left = freshHandState,
            right = \<lparr>detected = True, correctAngle = False, shoulderTouching = True\<rparr>\<rparr>"
  by (simp add: classifyFrame_def twoRightHandsFrame_def getShoulders_examplePose rightHand_def
      levelRightHand_def processHand_def toLowerCase_Right kp_def atan2_def
      arctan_one angleTolerance_def freshHandStates_def freshHandState_def Let_def)

section \<open>One run of detect on a classified frame\<close>

lemma detect_classified:
  assumes "classifyFrame f = Inr hs"
  shows "detect st (Some f) =
           Inr (if sideOk hs (currentSide st)
                then (case holdCountdown st of
                        None \<Rightarrow> st\<lparr>handStates := hs, holdCountdown := Some holdDuration\<rparr>
                      | Some n \<Rightarrow>
                          if 0 < n
                          then st\<lparr>handStates := hs,
                                  pendingTimeouts := pendingTimeouts st @ [clock st + 1000]\<rparr>
                          else if currentSide st = Right
                          then st\<lparr>handStates := hs, currentSide := Left, holdCountdown := None\<rparr>
                          else st\<lparr>handStates := hs, isComplete := True\<rparr>)
                else st\<lparr>handStates := hs, holdCountdown := None\<rparr>)"
  using assms by (simp add: detect_def sideOk_def Let_def split: option.splits)

lemma detect_handStates:
  assumes "classifyFrame f = Inr hs"
  shows "\<exists>st'. detect st (Some f) = Inr st' \<and> handStates st' = hs"
  using detect_classified [OF assms, of st] by (simp split: option.splits)

lemma sideStatus_no_hand:
  assumes "\<forall>p \<in> set hands. sideOf p \<noteq> s"
  shows "sideStatus shoulders l hands s = freshHandState"
proof -
  from assms have "filter (\<lambda>p. sideOf p = s) hands = []"
    by (simp only: filter_empty_conv)
  then show ?thesis by (simp add: sideStatus_def)
qed

lemma sideStatus_hand:
  assumes "filter (\<lambda>p. sideOf p = s) hands \<noteq> []"
  shows "sideStatus shoulders l hands s
           = handStatus (shoulderFor shoulders s) l s (last (filter (\<lambda>p. sideOf p = s) hands))"
  using assms by (cases "filter (\<lambda>p. sideOf p = s) hands") (simp_all add: sideStatus_def)

lemma filter_nonempty:
  assumes "\<exists>p \<in> set hands. P p"
  shows "filter P hands \<noteq> []"
  using assms by (simp only: filter_empty_conv) blast

section \<open>What each part of a step leaves alone\<close>

lemma timerCompletion_fields:
  "currentSide (timerCompletion st) = currentSide st"
  "holdCountdown (timerCompletion st) = holdCountdown st"
  "onCompleteCalls (timerCompletion st) = onCompleteCalls st"
  "isComplete (timerCompletion st) = isComplete st"
  "timeLeft (timerCompletion st) = timeLeft st"
  "showStartModal (timerCompletion st) = showStartModal st"
  "isLoading (timerCompletion st) = isLoading st"
  "pendingTimeouts (timerCompletion st) = pendingTimeouts st"
  "clock (timerCompletion st) = clock st"
  by (simp_all add: timerCompletion_def Let_def)

lemma fireTimeouts_fields:
  "currentSide (fireTimeouts st) = currentSide st"
  "onCompleteCalls (fireTimeouts st) = onCompleteCalls st"
  "isComplete (fireTimeouts st) = isComplete st"
  "timeLeft (fireTimeouts st) = timeLeft st"
  "showStartModal (fireTimeouts st) = showStartModal st"
  "showCompletionModal (fireTimeouts st) = showCompletionModal st"
  "challengeStarted (fireTimeouts st) = challengeStarted st"
  "isLoading (fireTimeouts st) = isLoading st"
  "clock (fireTimeouts st) = clock st"
  by (simp_all add: fireTimeouts_def)

lemma detect_preserves:
  assumes "detect st fr = Inr st'"
  shows "onCompleteCalls st' = onCompleteCalls st \<and>
         showCompletionModal st' = showCompletionModal st \<and>
         showStartModal st' = showStartModal st \<and>
         challengeStarted st' = challengeStarted st \<and>
         timeLeft st' = timeLeft st \<and> isLoading st' = isLoading st \<and> clock st' = clock st"
  using assms
  by (auto simp: detect_def Let_def split: option.splits sum.splits if_splits)

lemma detect_side_order:
  assumes "detect st fr = Inr st'"
  shows "currentSide st' = currentSide st \<or> (currentSide st = Right \<and> currentSide st' = Left)"
  using assms
  by (auto simp: detect_def Let_def split: option.splits sum.splits if_splits)

lemma applyEvent_side_order:
  assumes "currentSide (applyEvent st e) \<noteq> currentSide st"
  shows "(currentSide st = Right \<and> currentSide (applyEvent st e) = Left \<and> (\<exists>fr. e = DetectTick fr))
       \<or> (currentSide st = Left \<and> currentSide (applyEvent st e) = Right
            \<and> (e = ClickStart \<or> e = ClickRetake))"
proof (cases e)
  case (DetectTick fr)
  show ?thesis
  proof (cases "detect st fr")
    case (Inl err)
    with DetectTick assms show ?thesis by (simp split: if_splits)
  next
    case (Inr st')
    from detect_side_order [OF Inr] DetectTick Inr assms show ?thesis
      by (auto split: if_splits)
  qed
next
  case ClickStart
  with assms show ?thesis
    by (cases "currentSide st") (auto simp: startChallenge_def split: if_splits)
next
  case ClickRetake
  with assms show ?thesis
    by (cases "currentSide st") (auto simp: resetChallenge_def split: if_splits)
qed (use assms in \<open>auto split: if_splits\<close>)

lemma step_side_order:
  assumes "currentSide (step st de) \<noteq> currentSide st"
  shows "(currentSide st = Right \<and> currentSide (step st de) = Left \<and> (\<exists>fr. snd de = DetectTick fr))
       \<or> (currentSide st = Left \<and> currentSide (step st de) = Right
            \<and> (snd de = ClickStart \<or> snd de = ClickRetake))"
proof -
  let ?s1 = "fireTimeouts (st\<lparr>clock := clock st + fst de\<rparr>)"
  have c: "currentSide ?s1 = currentSide st" by (simp add: fireTimeouts_fields)
  have s: "currentSide (step st de) = currentSide (applyEvent ?s1 (snd de))"
    by (simp add: step_def timerCompletion_fields)
  from assms have "currentSide (applyEvent ?s1 (snd de)) \<noteq> currentSide ?s1"
    unfolding s c .
  from applyEvent_side_order [OF this] show ?thesis unfolding s c .
qed




lemma applyEvent_onCompleteCalls:
  "onCompleteCalls (applyEvent st e)
     = (if e = ClickContinue \<and> showCompletionModal st then Suc (onCompleteCalls st)
        else onCompleteCalls st)"
proof (cases e)
  case (DetectTick fr)
  show ?thesis
  proof (cases "detect st fr")
    case (Inl err)
    with DetectTick show ?thesis by simp
  next
    case (Inr st')
    from detect_preserves [OF Inr] DetectTick Inr show ?thesis by simp
  qed
qed (simp_all add: startChallenge_def resetChallenge_def)

lemma step_onCompleteCalls:
  "onCompleteCalls (step st (dt, e))
     = (if e = ClickContinue \<and> showCompletionModal st then Suc (onCompleteCalls st)
        else onCompleteCalls st)"
  by (simp add: step_def timerCompletion_fields applyEvent_onCompleteCalls fireTimeouts_fields)

lemma applyEvent_modal:
  assumes "\<not> showCompletionModal st"
  shows "\<not> showCompletionModal (applyEvent st e)"
proof (cases e)
  case (DetectTick fr)
  show ?thesis
  proof (cases "detect st fr")
    case (Inl err)
    with DetectTick assms show ?thesis by simp
  next
    case (Inr st')
    from detect_preserves [OF Inr] DetectTick Inr assms show ?thesis by simp
  qed
qed (use assms in \<open>simp_all add: startChallenge_def resetChallenge_def\<close>)

lemma step_modal:
  assumes "showCompletionModal (step st de)" and "\<not> showCompletionModal st"
  shows "isComplete (step st de) \<and> timeLeft (step st de) \<le> 0 \<and> \<not> challengeStarted (step st de)"
proof -
  let ?s1 = "fireTimeouts (st\<lparr>clock := clock st + fst de\<rparr>)"
  let ?s2 = "applyEvent ?s1 (snd de)"
  from assms(2) have "\<not> showCompletionModal ?s1" by (simp add: fireTimeouts_fields)
  then have n: "\<not> showCompletionModal ?s2" by (rule applyEvent_modal)
  from assms(1) have "showCompletionModal (timerCompletion ?s2)" by (simp add: step_def)
  with n have "timeLeft ?s2 \<le> 0 \<and> challengeStarted ?s2 \<and> isComplete ?s2"
    by (auto simp: timerCompletion_def Let_def split: if_splits)
  then show ?thesis
    by (simp add: step_def timerCompletion_def Let_def)
qed

section \<open>The schedules, evaluated\<close>


lemma bothHolds_fields:
  "isComplete (run initialState bothHolds)" "clock (run initialState bothHolds) = 20000"
  "onCompleteCalls (run initialState bothHolds) = 0"
  "\<not> showCompletionModal (run initialState bothHolds)"
  "challengeStarted (run initialState bothHolds)" "timeLeft (run initialState bothHolds) = 40"
  by (simp_all add: schedule_eval)

lemma completedSession_fields:
  "showCompletionModal (run initialState completedSession)"
  "onCompleteCalls (run initialState completedSession) = 0"
  "clock (run initialState completedSession) = 60000"
  "isComplete (run initialState completedSession)"
  "\<not> challengeStarted (run initialState completedSession)"
  by (simp_all add: schedule_eval)

lemma getShoulders_frame720:
  "getShoulders (posePredictions frame720)
     = Inr (Some (kp 340 484 (9 / 10)), Some (kp 300 484 (9 / 10)))"
  by (simp add: frame720_def getShoulders_def Let_def)

lemma getShoulders_boundaryFrame:
  "getShoulders (posePredictions boundaryFrame)
     = Inr (Some (kp 340 356 (9 / 10)), Some (kp 300 356 (9 / 10)))"
  by (simp add: boundaryFrame_def getShoulders_def Let_def)

lemma wellFormed_more:
  "wellFormedFrame frame720" "wellFormedFrame boundaryFrame"
  by (simp_all add: wellFormedFrame_def frame720_def boundaryFrame_def levelThenRaisedFrame_def
      examplePose_def rightHand_def levelRightHand_def)

lemma classify_shortPose: "classifyFrame shortPoseFrame = Inl TypeError"
  by (simp add: classifyFrame_def shortPoseFrame_def getShoulders_def Let_def)

lemma wellFormed_levelThenRaised: "wellFormedFrame levelThenRaisedFrame"
  by (simp add: wellFormedFrame_def levelThenRaisedFrame_def examplePose_def rightHand_def
      levelRightHand_def)

lemma spec_computeAngle_level: "spec_computeAngle (kp 300 336 (9 / 10)) (kp 400 336 1) = 0"
  by (simp add: spec_computeAngle_def kp_def atan2_def Let_def)

lemma handStatus_examples:
  "handStatus (Some (kp 300 336 (9 / 10))) 336 Right rightHand = okState"
  "handStatus (Some (kp 300 336 (9 / 10))) 336 Right levelRightHand
     = \<lparr>detected = True, correctAngle = False, shoulderTouching = True\<rparr>"
  by (simp_all add: handStatus_def rightHand_def levelRightHand_def spec_computeAngle_example
      spec_computeAngle_level spec_angleMatches_def spec_shoulderOnLine_def okState_def)
     (simp_all add: kp_def)

lemma detect_not_ok:
  assumes "classifyFrame f = Inr hs" and "\<not> sideOk hs (currentSide st)"
  shows "detect st (Some f) = Inr (st\<lparr>handStates := hs, holdCountdown := None\<rparr>) \<and>
         (\<not> isLoading st \<and> challengeStarted st \<longrightarrow>
            holdCountdown (applyEvent st (DetectTick (Some f))) = None)"
  using assms by (simp add: detect_classified)

section \<open>Properties of the geometry evaluator\<close>



text \<open>
  Claim C8. In a well-formed frame, a side's \<open>shoulderTouching\<close> flag is true iff the
  side has a hand, its shoulder is there with score above 0.3, and the shoulder is less
  than 20 pixels from the reference line, at the position \<open>computedLineY\<close> the tick
  has computed. The inequalities are strict: a shoulder exactly 20 pixels from it,
  or one with score at most 0.3, is not on the line.
\<close>

theorem shoulderTouching_iff:
  assumes "wellFormedFrame f" and "getShoulders (posePredictions f) = Inr shoulders"
  shows "\<exists>hs. classifyFrame f = Inr hs \<and>
           (\<forall>s. shoulderTouching (getSide hs s) =
              ((\<exists>p \<in> set (handPredictions f). sideOf p = s) \<and>
               (case shoulderFor shoulders s of
                  None \<Rightarrow> False
                | Some sh \<Rightarrow> 3 / 10 < score sh \<and> \<bar>ky sh - computedLineY f\<bar> < 20))) \<and>
           (\<forall>s sh. shoulderFor shoulders s = Some sh \<longrightarrow>
              \<bar>ky sh - computedLineY f\<bar> = 20 \<or> score sh \<le> 3 / 10 \<longrightarrow>
              \<not> shoulderTouching (getSide hs s))"
proof -
  from classifyFrame_wellFormed [OF assms(1)] assms(2)
  obtain hs where c: "classifyFrame f = Inr hs"
    and g: "\<And>s. getSide hs s =
              sideStatus shoulders (computedLineY f) (handPredictions f) s"
    by auto
  have t: "shoulderTouching (getSide hs s) =
              ((\<exists>p \<in> set (handPredictions f). sideOf p = s) \<and>
               (case shoulderFor shoulders s of
                  None \<Rightarrow> False
                | Some sh \<Rightarrow> 3 / 10 < score sh \<and> \<bar>ky sh - computedLineY f\<bar> < 20))" for s
  proof (cases "filter (\<lambda>p. sideOf p = s) (handPredictions f)")
    case Nil
    have n: "\<not> (\<exists>p \<in> set (handPredictions f). sideOf p = s)"
      using Nil by (simp only: filter_empty_conv) blast
    have "getSide hs s = freshHandState"
      unfolding g sideStatus_def Nil by simp
    then show ?thesis using n by (simp add: freshHandState_def)
  next
    case (Cons q qs)
    have e: "\<exists>p \<in> set (handPredictions f). sideOf p = s"
    proof (rule ccontr)
      assume "\<not> ?thesis"
      then have "filter (\<lambda>p. sideOf p = s) (handPredictions f) = []"
        by (simp only: filter_empty_conv) blast
      with Cons show False by simp
    qed
    have "getSide hs s
            = handStatus (shoulderFor shoulders s) (computedLineY f) s (last (q # qs))"
      unfolding g sideStatus_def Cons by simp
    then have "shoulderTouching (getSide hs s) =
               (case shoulderFor shoulders s of
                  None \<Rightarrow> False
                | Some sh \<Rightarrow> 3 / 10 < score sh \<and> \<bar>ky sh - computedLineY f\<bar> < 20)"
      by (simp add: handStatus_def spec_shoulderOnLine_def
          split: option.splits)
    then show ?thesis using e by simp
  qed
  have b: "\<not> shoulderTouching (getSide hs s)"
    if "shoulderFor shoulders s = Some sh"
      and "\<bar>ky sh - computedLineY f\<bar> = 20 \<or> score sh \<le> 3 / 10" for s sh
    using that by (auto simp add: t)
  show ?thesis
  proof (intro exI conjI allI impI)
    show "classifyFrame f = Inr hs" by (rule c)
  qed (rule t, rule b)
qed

text \<open>
  A video 720 pixels high, whose line is just above 504: a shoulder at \<open>y = 484\<close> is
  on the line, and the side without a hand is not. A shoulder exactly 20 pixels from
  the line is not on it.
\<close>

theorem shoulderTouching_iff_witness:
  "wellFormedFrame frame720 \<and> wellFormedFrame boundaryFrame \<and>
   (\<exists>hs. classifyFrame frame720 = Inr hs \<and> shoulderTouching (getSide hs Right)
      \<and> \<not> shoulderTouching (getSide hs Left)) \<and>
   (\<exists>hs. classifyFrame boundaryFrame = Inr hs \<and> \<not> shoulderTouching (getSide hs Right))"
proof -
  from shoulderTouching_iff [OF wellFormed_more(1) getShoulders_frame720]
  obtain hs where c: "classifyFrame frame720 = Inr hs"
    and t: "\<And>s. shoulderTouching (getSide hs s) =
              ((\<exists>p \<in> set (handPredictions frame720). sideOf p = s) \<and>
               (case shoulderFor (Some (kp 340 484 (9 / 10)), Some (kp 300 484 (9 / 10))) s of
                  None \<Rightarrow> False
                | Some sh \<Rightarrow> 3 / 10 < score sh \<and> \<bar>ky sh - computedLineY frame720\<bar> < 20))"
    by blast
  have r: "shoulderTouching (getSide hs Right)"
    unfolding t by (simp add: frame720_def sideOf_examples kp_def)
  have l: "\<not> shoulderTouching (getSide hs Left)"
    unfolding t by (simp add: frame720_def sideOf_examples)
  from shoulderTouching_iff [OF wellFormed_more(2) getShoulders_boundaryFrame]
  obtain hb where cb: "classifyFrame boundaryFrame = Inr hb"
    and tb: "\<And>s. shoulderTouching (getSide hb s) =
              ((\<exists>p \<in> set (handPredictions boundaryFrame). sideOf p = s) \<and>
               (case shoulderFor (Some (kp 340 356 (9 / 10)), Some (kp 300 356 (9 / 10))) s of
                  None \<Rightarrow> False
                | Some sh \<Rightarrow> 3 / 10 < score sh \<and> \<bar>ky sh - computedLineY boundaryFrame\<bar> < 20))"
    by blast
  have b: "\<not> shoulderTouching (getSide hb Right)"
    unfolding tb by (simp add: boundaryFrame_def sideOf_examples kp_def)
  from c r l cb b wellFormed_more(1,2) show ?thesis by blast
qed

section \<open>Properties of the frame classifier\<close>

text \<open>
  Claim C9, as the specification states it: for every frame the status is recomputed
  and the processing never throws. A pose of five joints makes the drawing loop of
  line 140 read \<^verbatim>\<open>score\<close> of \<^verbatim>\<open>undefined\<close>: the tick raises a TypeError before
  \<^verbatim>\<open>setHandStates\<close>, and the status of the previous frame stays stored.
\<close>

theorem tick_throws_counterexample:
  "classifyFrame shortPoseFrame = Inl TypeError \<and>
   detect (midHoldState\<lparr>handStates := \<lparr>left = freshHandState, right = okState\<rparr>\<rparr>)
     (Some shortPoseFrame) = Inl TypeError \<and>
   handStates (applyEvent (midHoldState\<lparr>handStates := \<lparr>left = freshHandState, right = okState\<rparr>\<rparr>)
     (DetectTick (Some shortPoseFrame))) = \<lparr>left = freshHandState, right = okState\<rparr>"
  by (simp add: classify_shortPose detect_def midHoldState_def initialState_def)

text \<open>
  Claim C9, amended. On every frame whose first pose, when there is one, has the
  shoulder entries 5 and 6 and whose hands all have a wrist landmark, the
  classification returns (it does not throw), and so does \<open>detect\<close> from any prior
  component state; the status stored is the one computed from this frame alone,
  whatever \<open>handStates\<close> held before. A side with no hand in the frame gets the
  all-false record; a side with a hand whose shoulder is missing or has score at most
  0.3 gets \<open>detected\<close> and neither \<open>correctAngle\<close> nor \<open>shoulderTouching\<close>.
\<close>

theorem status_recomputed_each_frame:
  assumes "wellFormedFrame f"
  shows "\<exists>shoulders hs.
           getShoulders (posePredictions f) = Inr shoulders \<and> classifyFrame f = Inr hs \<and>
           (\<forall>s. (\<forall>p \<in> set (handPredictions f). sideOf p \<noteq> s) \<longrightarrow>
                getSide hs s
                  = \<lparr>detected = False, correctAngle = False, shoulderTouching = False\<rparr>) \<and>
           (\<forall>s. (\<exists>p \<in> set (handPredictions f). sideOf p = s) \<longrightarrow>
                (shoulderFor shoulders s = None \<or>
                 (\<exists>sh. shoulderFor shoulders s = Some sh \<and> score sh \<le> 3 / 10)) \<longrightarrow>
                getSide hs s
                  = \<lparr>detected = True, correctAngle = False, shoulderTouching = False\<rparr>) \<and>
           (\<forall>st. \<exists>st'. detect st (Some f) = Inr st' \<and> handStates st' = hs)"
proof -
  from classifyFrame_wellFormed [OF assms]
  obtain shoulders hs where sh: "getShoulders (posePredictions f) = Inr shoulders"
    and c: "classifyFrame f = Inr hs"
    and g: "\<And>s. getSide hs s =
              sideStatus shoulders (computedLineY f) (handPredictions f) s"
    by blast
  have a: "getSide hs s = \<lparr>detected = False, correctAngle = False, shoulderTouching = False\<rparr>"
    if "\<forall>p \<in> set (handPredictions f). sideOf p \<noteq> s" for s
    unfolding g sideStatus_no_hand [OF that] by (simp add: freshHandState_def)
  have b: "getSide hs s = \<lparr>detected = True, correctAngle = False, shoulderTouching = False\<rparr>"
    if h: "\<exists>p \<in> set (handPredictions f). sideOf p = s"
      and n: "shoulderFor shoulders s = None \<or>
              (\<exists>sh. shoulderFor shoulders s = Some sh \<and> score sh \<le> 3 / 10)" for s
  proof -
    from n have "\<not> validShoulder (shoulderFor shoulders s)"
      by (auto simp: validShoulder_def)
    then show ?thesis
      unfolding g sideStatus_hand [OF filter_nonempty [OF h]]
      by (simp add: handStatus_invalid freshHandState_def)
  qed
  have d: "\<exists>st'. detect st (Some f) = Inr st' \<and> handStates st' = hs" for st
    by (rule detect_handStates [OF c])
  show ?thesis
  proof (intro exI [of _ shoulders] exI [of _ hs] conjI allI impI)
    show "getShoulders (posePredictions f) = Inr shoulders" by (rule sh)
    show "classifyFrame f = Inr hs" by (rule c)
  qed (rule a, assumption, rule b, assumption, assumption, rule d)
qed

text \<open>A frame with a right hand and no pose, met in the middle of a hold.\<close>

theorem status_recomputed_each_frame_witness:
  "wellFormedFrame noPoseFrame \<and>
   (\<exists>st'. detect midHoldState (Some noPoseFrame) = Inr st' \<and>
      getSide (handStates st') Left
        = \<lparr>detected = False, correctAngle = False, shoulderTouching = False\<rparr> \<and>
      getSide (handStates st') Right
        = \<lparr>detected = True, correctAngle = False, shoulderTouching = False\<rparr>)"
proof -
  from status_recomputed_each_frame [OF wellFormed_examples(4)]
  obtain hs where c: "classifyFrame noPoseFrame = Inr hs"
    and d: "\<And>st. \<exists>st'. detect st (Some noPoseFrame) = Inr st' \<and> handStates st' = hs"
    by blast
  from c have "hs = \<lparr>left = freshHandState,
            right = \<lparr>detected = True, correctAngle = False, shoulderTouching = False\<rparr>\<rparr>"
    by (simp add: classify_noPose)
  with d [of midHoldState] wellFormed_examples(4) show ?thesis
    by (auto simp: freshHandState_def)
qed

text \<open>
  Claim C10. The classification is a function of the frame alone: any two runs of
  \<open>detect\<close> on the same frame store the same status, from whatever states. When a side
  has one or more hands in the list, its status is the status of the last hand of that
  side: \<open>detected\<close> is set, and with a shoulder of score above 0.3 the angle flag is
  the angle test on that hand's wrist and the line flag is the line test on the
  shoulder. The same status comes out of the frame that holds only that hand.
\<close>

theorem last_hand_of_side_decides:
  assumes "wellFormedFrame f" and "getShoulders (posePredictions f) = Inr shoulders"
    and "filter (\<lambda>p. sideOf p = s) (handPredictions f) \<noteq> []"
  shows "\<exists>hs hs1.
           classifyFrame f = Inr hs \<and>
           getSide hs s
             = handStatus (shoulderFor shoulders s) (computedLineY f) s
                 (last (filter (\<lambda>p. sideOf p = s) (handPredictions f))) \<and>
           detected (getSide hs s) \<and>
           (\<forall>sh w ws.
              shoulderFor shoulders s = Some sh \<and> 3 / 10 < score sh \<and>
              keypoints (last (filter (\<lambda>p. sideOf p = s) (handPredictions f))) = w # ws \<longrightarrow>
              correctAngle (getSide hs s) = (\<bar>spec_computeAngle sh w - spec_target s\<bar> \<le> 15) \<and>
              shoulderTouching (getSide hs s) = (\<bar>ky sh - computedLineY f\<bar> < 20)) \<and>
           classifyFrame
             (f\<lparr>handPredictions := [last (filter (\<lambda>p. sideOf p = s) (handPredictions f))]\<rparr>)
             = Inr hs1 \<and>
           getSide hs s = getSide hs1 s \<and>
           (\<forall>st1 st2. \<exists>st1' st2'.
               detect st1 (Some f) = Inr st1' \<and> detect st2 (Some f) = Inr st2' \<and>
               handStates st1' = hs \<and> handStates st2' = hs)"
proof -
  let ?q = "last (filter (\<lambda>p. sideOf p = s) (handPredictions f))"
  let ?f1 = "f\<lparr>handPredictions := [?q]\<rparr>"
  have qin: "?q \<in> set (filter (\<lambda>p. sideOf p = s) (handPredictions f))"
    using assms(3) by (rule last_in_set)
  then have qs: "sideOf ?q = s" and qh: "?q \<in> set (handPredictions f)" by simp_all
  from assms(1) qh have w1: "wellFormedFrame ?f1"
    by (simp add: wellFormedFrame_def)
  from classifyFrame_wellFormed [OF assms(1)] assms(2)
  obtain hs where c: "classifyFrame f = Inr hs"
    and g: "\<And>s. getSide hs s = sideStatus shoulders (computedLineY f) (handPredictions f) s"
    by auto
  from classifyFrame_wellFormed [OF w1] assms(2)
  obtain hs1 where c1: "classifyFrame ?f1 = Inr hs1"
    and g1: "\<And>s. getSide hs1 s = sideStatus shoulders (computedLineY f) [?q] s"
    by auto
  have h: "getSide hs s = handStatus (shoulderFor shoulders s) (computedLineY f) s ?q"
    unfolding g by (rule sideStatus_hand [OF assms(3)])
  have e: "getSide hs s = getSide hs1 s"
    unfolding h g1 using qs by (simp add: sideStatus_def)
  have d: "detected (getSide hs s)"
    unfolding h by (simp add: handStatus_def split: option.splits)
  have a: "correctAngle (getSide hs s) = (\<bar>spec_computeAngle sh w - spec_target s\<bar> \<le> 15) \<and>
           shoulderTouching (getSide hs s) = (\<bar>ky sh - computedLineY f\<bar> < 20)"
    if "shoulderFor shoulders s = Some sh \<and> 3 / 10 < score sh \<and> keypoints ?q = w # ws"
    for sh w ws
    unfolding h using that
    by (simp add: handStatus_def spec_angleMatches_def spec_shoulderOnLine_def)
  have r: "\<exists>st1' st2'.
               detect st1 (Some f) = Inr st1' \<and> detect st2 (Some f) = Inr st2' \<and>
               handStates st1' = hs \<and> handStates st2' = hs" for st1 st2
    using detect_handStates [OF c, of st1] detect_handStates [OF c, of st2] by blast
  show ?thesis
  proof (rule exI [of _ hs], rule exI [of _ hs1], intro conjI allI impI)
    show "classifyFrame f = Inr hs" by (rule c)
    show "classifyFrame ?f1 = Inr hs1" by (rule c1)
  qed (rule h, rule d, use a in blast, use a in blast, rule e, rule r)
qed

text \<open>
  Two right hands, one at 45 degrees and one level with the shoulder. In either order
  the last one decides: the angle flag is false when the level hand is last, and true
  when the raised hand is last.
\<close>

theorem last_hand_of_side_decides_witness:
  "wellFormedFrame twoRightHandsFrame \<and> wellFormedFrame levelThenRaisedFrame \<and>
   last (filter (\<lambda>p. sideOf p = Right) (handPredictions twoRightHandsFrame)) = levelRightHand \<and>
   last (filter (\<lambda>p. sideOf p = Right) (handPredictions levelThenRaisedFrame)) = rightHand \<and>
   (\<exists>hs. classifyFrame twoRightHandsFrame = Inr hs \<and>
      getSide hs Right = \<lparr>detected = True, correctAngle = False, shoulderTouching = True\<rparr>) \<and>
   (\<exists>hs. classifyFrame levelThenRaisedFrame = Inr hs \<and>
      getSide hs Right = \<lparr>detected = True, correctAngle = True, shoulderTouching = True\<rparr>)"
proof -
  have l1: "filter (\<lambda>p. sideOf p = Right) (handPredictions twoRightHandsFrame)
             = [rightHand, levelRightHand]"
    by (simp add: twoRightHandsFrame_def sideOf_examples)
  have l2: "filter (\<lambda>p. sideOf p = Right) (handPredictions levelThenRaisedFrame)
             = [levelRightHand, rightHand]"
    by (simp add: levelThenRaisedFrame_def sideOf_examples)
  have s1: "getShoulders (posePredictions twoRightHandsFrame)
              = Inr (Some (kp 340 336 (9 / 10)), Some (kp 300 336 (9 / 10)))"
    by (simp add: twoRightHandsFrame_def getShoulders_examplePose)
  have s2: "getShoulders (posePredictions levelThenRaisedFrame)
              = Inr (Some (kp 340 336 (9 / 10)), Some (kp 300 336 (9 / 10)))"
    by (simp add: levelThenRaisedFrame_def getShoulders_examplePose)
  have n1: "filter (\<lambda>p. sideOf p = Right) (handPredictions twoRightHandsFrame) \<noteq> []"
    by (simp add: l1)
  have n2: "filter (\<lambda>p. sideOf p = Right) (handPredictions levelThenRaisedFrame) \<noteq> []"
    by (simp add: l2)
  from last_hand_of_side_decides [OF wellFormed_examples(5) s1 n1]
  obtain hs where c: "classifyFrame twoRightHandsFrame = Inr hs"
    and g: "getSide hs Right
             = handStatus (shoulderFor (Some (kp 340 336 (9 / 10)), Some (kp 300 336 (9 / 10))) Right)
                 (computedLineY twoRightHandsFrame) Right
                 (last (filter (\<lambda>p. sideOf p = Right) (handPredictions twoRightHandsFrame)))"
    by blast
  from last_hand_of_side_decides [OF wellFormed_levelThenRaised s2 n2]
  obtain hs' where c': "classifyFrame levelThenRaisedFrame = Inr hs'"
    and g': "getSide hs' Right
             = handStatus (shoulderFor (Some (kp 340 336 (9 / 10)), Some (kp 300 336 (9 / 10))) Right)
                 (computedLineY levelThenRaisedFrame) Right
                 (last (filter (\<lambda>p. sideOf p = Right) (handPredictions levelThenRaisedFrame)))"
    by blast
  have v: "getSide hs Right = \<lparr>detected = True, correctAngle = False, shoulderTouching = True\<rparr>"
    unfolding g l1 by (simp add: twoRightHandsFrame_def handStatus_examples)
  have v': "getSide hs' Right = \<lparr>detected = True, correctAngle = True, shoulderTouching = True\<rparr>"
    unfolding g' l2 by (simp add: levelThenRaisedFrame_def handStatus_examples okState_def)
  from c v c' v' wellFormed_examples(5) wellFormed_levelThenRaised l1 l2
  show ?thesis by auto
qed

section \<open>Properties of the hold and side state machine\<close>

text \<open>
  Claim C6 says that a disqualifying frame resets the hold, which never pauses and never
  keeps progress across such a frame. The tick itself sets the countdown to none, but
  the timers armed by the qualifying ticks before it stay armed. With the right arm
  qualifying from 100 to 1000 ms and no hand at 1100 ms, the countdown is none at
  1100 ms, \<open>-1\<close> at 1200 ms and \<open>-9\<close> at 2000 ms; the qualifying frame at 2100 ms then
  finds a countdown that is neither none nor positive and switches to the left side,
  after one second of hold.
\<close>

theorem hold_outlives_disqualifying_frame:
  "holdCountdown (run initialState (fastRight 10)) = Some 10 \<and>
   clock (run initialState (fastRight 10)) = 1000 \<and>
   holdCountdown (run initialState dropAfterOneSecond) = None \<and>
   currentSide (run initialState dropAfterOneSecond) = Right \<and>
   clock (run initialState dropAfterOneSecond) = 1100 \<and>
   pendingTimeouts (run initialState dropAfterOneSecond)
     = [1200, 1300, 1400, 1500, 1600, 1700, 1800, 1900, 2000] \<and>
   holdCountdown (run initialState (dropAfterOneSecond @ [(100, Elapse)])) = Some (- 1) \<and>
   holdCountdown (run initialState (dropAfterOneSecond @ [(900, Elapse)])) = Some (- 9) \<and>
   currentSide (run initialState
      (dropAfterOneSecond @ [(1000, DetectTick (Some okRightFrame))])) = Left \<and>
   clock (run initialState
      (dropAfterOneSecond @ [(1000, DetectTick (Some okRightFrame))])) = 2100"
  by (simp add: schedule_eval)

text \<open>
  Claim C5. On a tick that finds the current side fully ok with the countdown at 0: on
  the right side, the current side becomes left and the countdown becomes none; on the
  left side, \<open>isComplete\<close> is set. The order is fixed: starting puts the side to right,
  and a step changes the side only from right to left, by a detection tick, or back to
  right, by the start or the retake button.
\<close>

theorem hold_zero_advances_side:
  assumes "classifyFrame f = Inr hs" and "sideOk hs (currentSide st)"
    and "holdCountdown st = Some 0"
  shows "(currentSide st = Right \<longrightarrow>
            detect st (Some f)
              = Inr (st\<lparr>handStates := hs, currentSide := Left, holdCountdown := None\<rparr>)) \<and>
         (currentSide st = Left \<longrightarrow>
            detect st (Some f) = Inr (st\<lparr>handStates := hs, isComplete := True\<rparr>)) \<and>
         currentSide (startChallenge st) = Right \<and>
         (\<forall>s de. currentSide (step s de) \<noteq> currentSide s \<longrightarrow>
            (currentSide s = Right \<and> currentSide (step s de) = Left
               \<and> (\<exists>fr. snd de = DetectTick fr))
            \<or> (currentSide s = Left \<and> currentSide (step s de) = Right
               \<and> (snd de = ClickStart \<or> snd de = ClickRetake)))"
proof (intro conjI allI impI)
  show "detect st (Some f)
          = Inr (st\<lparr>handStates := hs, currentSide := Left, holdCountdown := None\<rparr>)"
    if "currentSide st = Right"
    using assms that by (simp add: detect_classified)
  show "detect st (Some f) = Inr (st\<lparr>handStates := hs, isComplete := True\<rparr>)"
    if "currentSide st = Left"
    using assms that by (simp add: detect_classified)
  show "currentSide (startChallenge st) = Right" by (simp add: startChallenge_def)
qed (rule step_side_order)

text \<open>Both transitions, on the example frames.\<close>

theorem hold_zero_advances_side_witness:
  "sideOk \<lparr>left = freshHandState, right = okState\<rparr> (currentSide holdDoneState) \<and>
   holdCountdown holdDoneState = Some 0 \<and>
   detect holdDoneState (Some okRightFrame)
     = Inr (holdDoneState\<lparr>handStates := \<lparr>left = freshHandState, right = okState\<rparr>,
             currentSide := Left, holdCountdown := None\<rparr>) \<and>
   detect (holdDoneState\<lparr>currentSide := Left\<rparr>) (Some okLeftFrame)
     = Inr (holdDoneState\<lparr>currentSide := Left,
             handStates := \<lparr>left = okState, right = freshHandState\<rparr>, isComplete := True\<rparr>)"
proof -
  have h2: "sideOk \<lparr>left = freshHandState, right = okState\<rparr> (currentSide holdDoneState)"
    by (simp add: sideOk_def holdDoneState_def initialState_def okState_def)
  have h3: "holdCountdown holdDoneState = Some 0"
    by (simp add: holdDoneState_def)
  have k2: "sideOk \<lparr>left = okState, right = freshHandState\<rparr>
              (currentSide (holdDoneState\<lparr>currentSide := Left\<rparr>))"
    by (simp add: sideOk_def okState_def)
  have k3: "holdCountdown (holdDoneState\<lparr>currentSide := Left\<rparr>) = Some 0"
    by (simp add: holdDoneState_def)
  from hold_zero_advances_side [OF classify_okRight h2 h3]
    hold_zero_advances_side [OF classify_okLeft k2 k3] h2 h3
  show ?thesis by (simp add: holdDoneState_def initialState_def)
qed

section \<open>Properties of the session controller\<close>




text \<open>
  Claim C2, as the specification states it: a full right hold followed by a full left
  hold completes the session and the host is notified exactly once, at that moment.
  After ten seconds of the right arm qualifying and ten seconds of the left arm
  qualifying, \<open>isComplete\<close> is set, the session is still running with 40 seconds left,
  the completion modal is not shown and \<open>onComplete\<close> has not been called. When the
  session timer has run out, 40 seconds later, the session has stopped and the modal is
  shown, and \<open>onComplete\<close> has still not been called.
\<close>

theorem completion_notification_counterexample:
  "isComplete (run initialState bothHolds) \<and> clock (run initialState bothHolds) = 20000 \<and>
   onCompleteCalls (run initialState bothHolds) = 0 \<and>
   \<not> showCompletionModal (run initialState bothHolds) \<and>
   challengeStarted (run initialState bothHolds) \<and> timeLeft (run initialState bothHolds) = 40 \<and>
   clock (run initialState completedSession) = 60000 \<and>
   isComplete (run initialState completedSession) \<and>
   \<not> challengeStarted (run initialState completedSession) \<and>
   showCompletionModal (run initialState completedSession) \<and>
   onCompleteCalls (run initialState completedSession) = 0"
  by (simp add: bothHolds_fields completedSession_fields)

text \<open>
  Claim C2, amended. On a qualifying tick with the countdown at 0 the right side hands
  over to the left side, and the left side sets \<open>isComplete\<close>; that tick neither calls
  \<open>onComplete\<close> nor shows the completion modal. \<open>onComplete\<close> is called by a click on
  \<^verbatim>\<open>Continue\<close> while the completion modal is shown, once per click, and by nothing
  else; the modal comes up only in a step that ends with \<open>isComplete\<close> set, the session
  timer at 0 and the session no longer running.
\<close>

theorem completion_notified_by_continue_click:
  "(classifyFrame f = Inr hs \<and> sideOk hs (currentSide st) \<and> holdCountdown st = Some 0 \<longrightarrow>
      (\<exists>st'. detect st (Some f) = Inr st' \<and>
         (currentSide st = Right \<longrightarrow> currentSide st' = Left \<and> holdCountdown st' = None) \<and>
         (currentSide st = Left \<longrightarrow> isComplete st') \<and>
         onCompleteCalls st' = onCompleteCalls st \<and>
         showCompletionModal st' = showCompletionModal st)) \<and>
   onCompleteCalls (step st (dt, e))
     = (if e = ClickContinue \<and> showCompletionModal st then Suc (onCompleteCalls st)
        else onCompleteCalls st) \<and>
   (showCompletionModal (step st (dt, e)) \<and> \<not> showCompletionModal st \<longrightarrow>
      isComplete (step st (dt, e)) \<and> timeLeft (step st (dt, e)) \<le> 0 \<and>
      \<not> challengeStarted (step st (dt, e)))"
proof (intro conjI)
  show "classifyFrame f = Inr hs \<and> sideOk hs (currentSide st) \<and> holdCountdown st = Some 0 \<longrightarrow>
      (\<exists>st'. detect st (Some f) = Inr st' \<and>
         (currentSide st = Right \<longrightarrow> currentSide st' = Left \<and> holdCountdown st' = None) \<and>
         (currentSide st = Left \<longrightarrow> isComplete st') \<and>
         onCompleteCalls st' = onCompleteCalls st \<and>
         showCompletionModal st' = showCompletionModal st)"
    by (cases "currentSide st") (simp_all add: detect_classified)
  show "onCompleteCalls (step st (dt, e))
     = (if e = ClickContinue \<and> showCompletionModal st then Suc (onCompleteCalls st)
        else onCompleteCalls st)"
    by (rule step_onCompleteCalls)
  show "showCompletionModal (step st (dt, e)) \<and> \<not> showCompletionModal st \<longrightarrow>
      isComplete (step st (dt, e)) \<and> timeLeft (step st (dt, e)) \<le> 0 \<and>
      \<not> challengeStarted (step st (dt, e))"
    using step_modal [of st "(dt, e)"] by blast
qed

text \<open>
  Both holds, then the wait for the session timer: the modal is up at 60 seconds, and
  the click on \<^verbatim>\<open>Continue\<close> half a second later is the first call of \<open>onComplete\<close>.
\<close>

theorem completion_notified_by_continue_click_witness:
  "showCompletionModal (run initialState completedSession) \<and>
   clock (run initialState completedSession) = 60000 \<and>
   onCompleteCalls (run initialState completedSession) = 0 \<and>
   onCompleteCalls (step (run initialState completedSession) (500, ClickContinue)) = 1"
  using completion_notified_by_continue_click
          [of noHandsFrame freshHandStates "run initialState completedSession" 500 ClickContinue]
  by (simp add: completedSession_fields)

section \<open>The one-shot decrement timers\<close>

text \<open>
  Claim C1 says that at most one decrement fires per second. Every qualifying tick with
  a positive countdown arms a timer of its own, so with the right arm qualifying on
  every 100 ms tick the countdown is 10 at 1100 ms, 9 at 1200 ms and 8 at 1300 ms, ten
  timers are pending at 1100 ms, and at 2100 ms the countdown has run out and the side
  has switched to left. Should no tick run while those ten timers fire, the countdown
  is 0 at 2100 ms all the same and the tick at 2200 ms switches the side.
\<close>

theorem countdown_faster_than_one_per_second:
  "holdCountdown (run initialState (fastRight 11)) = Some 10 \<and>
   clock (run initialState (fastRight 11)) = 1100 \<and>
   length (pendingTimeouts (run initialState (fastRight 11))) = 10 \<and>
   holdCountdown (run initialState (fastRight 12)) = Some 9 \<and>
   clock (run initialState (fastRight 12)) = 1200 \<and>
   holdCountdown (run initialState (fastRight 13)) = Some 8 \<and>
   clock (run initialState (fastRight 13)) = 1300 \<and>
   currentSide (run initialState (fastRight 21)) = Left \<and>
   clock (run initialState (fastRight 21)) = 2100 \<and>
   holdCountdown (run initialState (fastRight 11 @ [(1000, Elapse)])) = Some 0 \<and>
   currentSide (run initialState
      (fastRight 11 @ [(1000, Elapse), (100, DetectTick (Some okRightFrame))])) = Left \<and>
   clock (run initialState
      (fastRight 11 @ [(1000, Elapse), (100, DetectTick (Some okRightFrame))])) = 2200"
  by (simp add: schedule_eval)

text \<open>
  Claim C3 says that a decrement scheduled before \<open>reset()\<close> never changes the countdown
  afterwards. \<open>resetChallenge\<close> cancels nothing. With eight timers pending at the click
  on \<^verbatim>\<open>Retake Assessment\<close>, the session is back to not started with the countdown at
  none; 100 ms later the first timer has made it \<open>-1\<close>, and 850 ms later it is \<open>-8\<close>.
  If the user starts again at once, the timers still pending make the countdown
  negative, and the first qualifying frame switches to the left side, be it the one
  200 ms after the start or, with no tick before the last timer, the one at 61 s.
\<close>

theorem decrement_fires_after_reset:
  "holdCountdown (run initialState retakeMidHold) = None \<and>
   \<not> challengeStarted (run initialState retakeMidHold) \<and>
   showStartModal (run initialState retakeMidHold) \<and>
   clock (run initialState retakeMidHold) = 60150 \<and>
   pendingTimeouts (run initialState retakeMidHold)
     = [60200, 60300, 60400, 60500, 60600, 60700, 60800, 60900] \<and>
   holdCountdown (run initialState (retakeMidHold @ [(100, Elapse)])) = Some (- 1) \<and>
   holdCountdown (run initialState (retakeMidHold @ [(850, Elapse)])) = Some (- 8) \<and>
   currentSide (run initialState
      (retakeMidHold @ [(100, ClickStart), (200, DetectTick (Some okRightFrame))])) = Left \<and>
   currentSide (run initialState
      (retakeMidHold @ [(100, ClickStart), (750, DetectTick (Some okRightFrame))])) = Left \<and>
   clock (run initialState
      (retakeMidHold @ [(100, ClickStart), (750, DetectTick (Some okRightFrame))])) = 61000"
  by (simp add: schedule_eval)

end
